theory Spec2Isabelle
  imports Main "HOL-Library.Sublist"
begin

section \<open>The Log panel of studio-base\<close>

text \<open>
  A shallow embedding of \<^verbatim>\<open>packages/studio-base/src/panels/Log/index.tsx\<close> and of
  \<^verbatim>\<open>packages/studio-base/src/components/Timestamp.tsx\<close>. The React component
  \<^verbatim>\<open>LogPanel\<close> is a function of its props and of the values its hooks hold between
  renders; the hooks' values are the fields of a state record, the callbacks it registers are
  functions on that record.
\<close>

subsection \<open>Data\<close>

text \<open>
  A topic as \<^verbatim>\<open>useDataSourceInfo()\<close> supplies it: \<^verbatim>\<open>{ name, datatype }\<close>. Record fields
  are global constants in HOL, so each field carries the name of its type as a prefix.
\<close>

record Topic =
  topic_name :: string
  topic_datatype :: string

text \<open>
  \<^verbatim>\<open>type Config = { searchTerms: string[]; minLogLevel: number; topicToRender?: string }\<close>.
  The optional field is an \<open>option\<close>: \<open>None\<close> is \<^verbatim>\<open>undefined\<close>.
\<close>

record Config =
  searchTerms :: "string list"
  minLogLevel :: int
  config_topicToRender :: "string option"

subsection \<open>Topic selection\<close>

definition SUPPORTED_DATATYPES :: "string list" where
  "SUPPORTED_DATATYPES =
     [''rosgraph_msgs/Log'',
      ''rcl_interfaces/msg/Log'',
      ''ros.rosgraph_msgs.Log'',
      ''ros.rcl_interfaces.Log'',
      ''foxglove.Log'']"

text \<open>
  \<^verbatim>\<open>topics.filter((topic) => SUPPORTED_DATATYPES.includes(topic.datatype))\<close>. The list of
  datatypes the closure reads is an argument here; \<open>topicToRender\<close> below passes the constant
  of the source.
\<close>

definition availableTopics :: "string list \<Rightarrow> Topic list \<Rightarrow> Topic list" where
  "availableTopics allowed topics = filter (\<lambda>topic. topic_datatype topic \<in> set allowed) topics"

text \<open>\<^verbatim>\<open>availableTopics[0]?.name\<close>: \<^verbatim>\<open>undefined\<close> when the array is empty.\<close>

definition defaultTopicToRender :: "string list \<Rightarrow> Topic list \<Rightarrow> string option" where
  "defaultTopicToRender allowed topics =
     (case availableTopics allowed topics of [] \<Rightarrow> None | topic # _ \<Rightarrow> Some (topic_name topic))"

text \<open>\<^verbatim>\<open>a ?? b\<close> is \<^verbatim>\<open>a\<close> unless \<^verbatim>\<open>a\<close> is \<^verbatim>\<open>undefined\<close> (or \<^verbatim>\<open>null\<close>).\<close>

definition nullish :: "'a option \<Rightarrow> 'a option \<Rightarrow> 'a option" where
  "nullish a b = (case a of Some v \<Rightarrow> Some v | None \<Rightarrow> b)"

text \<open>\<^verbatim>\<open>config.topicToRender ?? defaultTopicToRender ?? "/rosout"\<close>.\<close>

definition topicToRender_among :: "string list \<Rightarrow> Config \<Rightarrow> Topic list \<Rightarrow> string" where
  "topicToRender_among allowed config topics =
     (case nullish (config_topicToRender config) (defaultTopicToRender allowed topics) of
        Some name \<Rightarrow> name
      | None \<Rightarrow> ''/rosout'')"

definition topicToRender :: "Config \<Rightarrow> Topic list \<Rightarrow> string" where
  "topicToRender config topics = topicToRender_among SUPPORTED_DATATYPES config topics"

subsection \<open>Log messages\<close>

text \<open>\<^verbatim>\<open>Time\<close> of \<^verbatim>\<open>@foxglove/rostime\<close>: whole seconds and nanoseconds.\<close>

record Time =
  sec :: int
  nsec :: int

text \<open>
  Modelled from the spec: the module \<^verbatim>\<open>./types\<close> that declares \<^verbatim>\<open>LogMessageEvent\<close> is not
  among the sources. The payload is the spec's LogRecord: an integer severity, an optional
  emitter name, the display text and a time stamp. \<open>index.tsx\<close> reads \<^verbatim>\<open>msgEvent.message.name\<close>
  and tests it against \<^verbatim>\<open>undefined\<close>, and reads \<^verbatim>\<open>item.topic\<close> and \<^verbatim>\<open>item["message"]\<close>.
\<close>

record LogRecord =
  log_level :: int
  log_name :: "string option"
  log_message :: string
  log_stamp :: Time

record LogMessageEvent =
  event_topic :: string
  event_message :: LogRecord

subsection \<open>The message filter\<close>

text \<open>The object literal \<^verbatim>\<open>{ minLogLevel, searchTerms }\<close> handed to \<^verbatim>\<open>filterMessages\<close>.\<close>

record FilterSpec =
  filter_minLogLevel :: int
  filter_searchTerms :: "string list"

text \<open>
  Modelled from the spec: \<^verbatim>\<open>./filterMessages\<close> is imported by \<open>index.tsx\<close> and is not among
  the sources. The spec's search-term test is substring containment: a term is found within a
  text when the text has the term as a contiguous part.
\<close>

definition found_within :: "string \<Rightarrow> string \<Rightarrow> bool" where
  "found_within term text = sublist term text"

text \<open>
  Modelled from the spec: the predicate per record,
  \<^verbatim>\<open>record.level >= spec.minLogLevel AND (spec.searchTerms is empty OR at least one term in
  spec.searchTerms is found within record.message OR record.name)\<close>. A record without a name
  has no name to find a term in.
\<close>

definition passes :: "FilterSpec \<Rightarrow> LogMessageEvent \<Rightarrow> bool" where
  "passes spec event =
     (let record = event_message event in
      log_level record \<ge> filter_minLogLevel spec \<and>
      (filter_searchTerms spec = [] \<or>
       list_ex (\<lambda>term. found_within term (log_message record) \<or>
                       (case log_name record of None \<Rightarrow> False | Some name \<Rightarrow> found_within term name))
               (filter_searchTerms spec)))"

text \<open>
  Modelled from the spec: \<^verbatim>\<open>filter(records, spec)\<close>, the records that pass, output order =
  input order.
\<close>

definition filterMessages :: "LogMessageEvent list \<Rightarrow> FilterSpec \<Rightarrow> LogMessageEvent list" where
  "filterMessages events spec = filter (passes spec) events"

text \<open>\<^verbatim>\<open>filterMessages(msgEvents, { minLogLevel, searchTerms })\<close>, the call in \<open>index.tsx\<close>.\<close>

definition filteredMessages :: "Config \<Rightarrow> LogMessageEvent list \<Rightarrow> LogMessageEvent list" where
  "filteredMessages config events =
     filterMessages events
       \<lparr>filter_minLogLevel = minLogLevel config, filter_searchTerms = searchTerms config\<rparr>"

subsection \<open>The state of a panel instance\<close>

text \<open>
  The scrolled element, as far as the panel touches it: \<^verbatim>\<open>div.scrollTop\<close> and
  \<^verbatim>\<open>div.scrollHeight\<close>, in pixels.
\<close>

record Viewport =
  scrollTop :: int
  scrollHeight :: int

text \<open>
  What the hooks of \<^verbatim>\<open>LogPanel\<close> keep between renders:
  \<^verbatim>\<open>seenNodeNamesCache = useRef(new Set<string>())\<close>,
  \<^verbatim>\<open>[hasUserScrolled, setHasUserScrolled] = useState(false)\<close>,
  \<^verbatim>\<open>scrollByUpdate = useRef<boolean>(false)\<close> and
  \<^verbatim>\<open>divRef = useRef<HTMLDivElement>(ReactNull)\<close>. A null \<^verbatim>\<open>divRef.current\<close> is \<open>None\<close>.
  \<^verbatim>\<open>setHasUserScrolled\<close> takes effect at once here; React applies it at the next render.
\<close>

record PanelState =
  seenNodeNamesCache :: "string set"
  hasUserScrolled :: bool
  scrollByUpdate :: bool
  divRef :: "Viewport option"

definition initialState :: PanelState where
  "initialState =
     \<lparr>seenNodeNamesCache = {}, hasUserScrolled = False, scrollByUpdate = False, divRef = None\<rparr>"

subsection \<open>Rendering\<close>

text \<open>
  \<^verbatim>\<open>const { [topicToRender]: msgEvents = [] } = useMessagesByTopic(...)\<close>: the events of the
  selected topic, the empty array when the result has none for it. The result of the hook is an
  argument.
\<close>

definition msgEvents :: "(string \<rightharpoonup> LogMessageEvent list) \<Rightarrow> string \<Rightarrow> LogMessageEvent list" where
  "msgEvents messagesByTopic topic =
     (case messagesByTopic topic of None \<Rightarrow> [] | Some events \<Rightarrow> events)"

text \<open>
  The body of the loop of \<^verbatim>\<open>seenNodeNames\<close>:
  \<^verbatim>\<open>if (name != undefined) { seenNodeNamesCache.current.add(name); }\<close>.
\<close>

definition addNodeName :: "LogMessageEvent \<Rightarrow> string set \<Rightarrow> string set" where
  "addNodeName msgEvent cache =
     (case log_name (event_message msgEvent) of None \<Rightarrow> cache | Some name \<Rightarrow> insert name cache)"

text \<open>
  \<^verbatim>\<open>seenNodeNames\<close>: the loop over \<^verbatim>\<open>msgEvents\<close> adds to the set the ref holds and returns
  that same set. \<^verbatim>\<open>useMemo\<close> skips the loop when \<^verbatim>\<open>msgEvents\<close> is the array of the render
  before; the loop run again on the same array changes nothing (\<open>seenNodeNames_again\<close>).
\<close>

definition seenNodeNames :: "LogMessageEvent list \<Rightarrow> PanelState \<Rightarrow> PanelState" where
  "seenNodeNames events st =
     st\<lparr>seenNodeNamesCache := fold addNodeName events (seenNodeNamesCache st)\<rparr>"

text \<open>What a render hands to its children, as far as the properties below read it.\<close>

record PanelView =
  view_topicToRender :: string
  view_nodeNames :: "string set"
  view_messages :: "LogMessageEvent list"
  view_scrollToBottomButton :: bool

text \<open>
  One render of \<^verbatim>\<open>LogPanel\<close>: the topic is selected, its events are read, their names are
  added to the cache, the events are filtered; the \<^verbatim>\<open>"Scroll to bottom"\<close> button is
  rendered under \<^verbatim>\<open>hasUserScrolled && (...)\<close>.
\<close>

definition render ::
  "Config \<Rightarrow> Topic list \<Rightarrow> (string \<rightharpoonup> LogMessageEvent list) \<Rightarrow> PanelState \<Rightarrow> PanelState \<times> PanelView" where
  "render config topics messagesByTopic st =
     (let topic = topicToRender config topics;
          events = msgEvents messagesByTopic topic;
          st' = seenNodeNames events st
      in (st',
          \<lparr>view_topicToRender = topic,
           view_nodeNames = seenNodeNamesCache st',
           view_messages = filteredMessages config events,
           view_scrollToBottomButton = hasUserScrolled st'\<rparr>))"

subsection \<open>Scrolling\<close>

text \<open>
  \<^verbatim>\<open>function scrollToBottom() { const div = divRef.current; if (!div) { return; }
  div.scrollTop = div.scrollHeight; }\<close>
\<close>

definition scrollToBottom :: "PanelState \<Rightarrow> PanelState" where
  "scrollToBottom st =
     (case divRef st of
        None \<Rightarrow> st
      | Some el \<Rightarrow> st\<lparr>divRef := Some (el\<lparr>scrollTop := scrollHeight el\<rparr>)\<rparr>)"

text \<open>
  The statements the callbacks are made of: \<^verbatim>\<open>setHasUserScrolled(b)\<close>,
  \<^verbatim>\<open>scrollByUpdate.current = b\<close> and \<^verbatim>\<open>scrollToBottom()\<close>. A callback is the list of the
  statements it executes, in order, in the state it is called in.
\<close>

datatype Statement =
  SetHasUserScrolled bool
| SetScrollByUpdate bool
| CallScrollToBottom

fun exec :: "Statement \<Rightarrow> PanelState \<Rightarrow> PanelState" where
  "exec (SetHasUserScrolled b) st = st\<lparr>hasUserScrolled := b\<rparr>"
| "exec (SetScrollByUpdate b) st = st\<lparr>scrollByUpdate := b\<rparr>"
| "exec CallScrollToBottom st = scrollToBottom st"

text \<open>
  \<^verbatim>\<open>function scrollToBottomAction() { setHasUserScrolled(false);
  scrollByUpdate.current = true; scrollToBottom(); }\<close>
\<close>

definition scrollToBottomAction :: "PanelState \<Rightarrow> Statement list" where
  "scrollToBottomAction st = [SetHasUserScrolled False, SetScrollByUpdate True, CallScrollToBottom]"

text \<open>
  The scroll listener: \<^verbatim>\<open>if (!scrollByUpdate.current) { setHasUserScrolled(true); }
  scrollByUpdate.current = false;\<close>
\<close>

definition listener :: "PanelState \<Rightarrow> Statement list" where
  "listener st =
     (if \<not> scrollByUpdate st then [SetHasUserScrolled True] else []) @ [SetScrollByUpdate False]"

text \<open>
  \<^verbatim>\<open>onPagesUpdated\<close>: \<^verbatim>\<open>if (!hasUserScrolled) { scrollByUpdate.current = true;
  scrollToBottom(); }\<close>
\<close>

definition onPagesUpdated :: "PanelState \<Rightarrow> Statement list" where
  "onPagesUpdated st =
     (if \<not> hasUserScrolled st then [SetScrollByUpdate True, CallScrollToBottom] else [])"

text \<open>
  What reaches the panel from outside: the list reports updated pages, the scrolled element
  delivers a scroll event to the listener, the user clicks the \<^verbatim>\<open>"Scroll to bottom"\<close> button.
  The layout effect registers the listener on the element once, at mount; \<open>Scroll\<close> is the
  delivery of an event to the registered listener.
\<close>

datatype Event = PagesUpdated | Scroll | ClickScrollToBottom

fun handler :: "Event \<Rightarrow> PanelState \<Rightarrow> Statement list" where
  "handler PagesUpdated st = onPagesUpdated st"
| "handler Scroll st = listener st"
| "handler ClickScrollToBottom st = scrollToBottomAction st"

definition step :: "Event \<Rightarrow> PanelState \<Rightarrow> PanelState" where
  "step event st = fold exec (handler event st) st"

text \<open>The state after a sequence of events, and the statements executed on the way.\<close>

fun run :: "Event list \<Rightarrow> PanelState \<Rightarrow> PanelState" where
  "run [] st = st"
| "run (event # events) st = run events (step event st)"

fun statements :: "Event list \<Rightarrow> PanelState \<Rightarrow> Statement list" where
  "statements [] st = []"
| "statements (event # events) st = handler event st @ statements events (step event st)"

subsection \<open>Rendering a cell\<close>

text \<open>
  \<^verbatim>\<open>datatypeByTopic\<close>: a \<^verbatim>\<open>Map\<close> filled by \<^verbatim>\<open>out.set(topic.name, topic.datatype)\<close> for each
  topic in order, a later topic of the same name replacing the earlier one.
\<close>

definition datatypeByTopic :: "Topic list \<Rightarrow> (string \<rightharpoonup> string)" where
  "datatypeByTopic topics =
     fold (\<lambda>topic out. out(topic_name topic \<mapsto> topic_datatype topic)) topics Map.empty"

text \<open>The element \<^verbatim>\<open><LogMessage value=... timestampFormat=... timeZone=... />\<close>.\<close>

datatype ('n, 'f, 'z) Element = LogMessage 'n 'f 'z

text \<open>
  \<^verbatim>\<open>onRenderCell\<close>. \<^verbatim>\<open>normalizedLogMessage\<close> of \<^verbatim>\<open>./conversion\<close> is not among the sources
  and is an argument; it may throw, which is \<open>Inl\<close>. The result \<open>Inr None\<close> is the
  \<^verbatim>\<open>return;\<close> without a value. \<^verbatim>\<open>!datatype\<close> holds of \<^verbatim>\<open>undefined\<close> and of the empty
  string.
\<close>

definition onRenderCell ::
  "(string \<Rightarrow> LogRecord \<Rightarrow> 'e + 'n) \<Rightarrow> 'f \<Rightarrow> 'z \<Rightarrow> Topic list \<Rightarrow> LogMessageEvent option
     \<Rightarrow> 'e + ('n, 'f, 'z) Element option" where
  "onRenderCell normalizedLogMessage timeFormat timeZone topics item =
     (case item of
        None \<Rightarrow> Inr None
      | Some item \<Rightarrow>
          (case datatypeByTopic topics (event_topic item) of
             None \<Rightarrow> Inr None
           | Some datatype \<Rightarrow>
               if datatype = [] then Inr None
               else
                 (case normalizedLogMessage datatype (event_message item) of
                    Inl err \<Rightarrow> Inl err
                  | Inr normalizedLog \<Rightarrow> Inr (Some (LogMessage normalizedLog timeFormat timeZone)))))"

subsection \<open>The Timestamp component\<close>

definition DURATION_20_YEARS_SEC :: int where
  "DURATION_20_YEARS_SEC = 20 * 365 * 24 * 60 * 60"

text \<open>\<^verbatim>\<open>return time.sec > DURATION_20_YEARS_SEC;\<close>\<close>

definition isAbsoluteTime :: "Time \<Rightarrow> bool" where
  "isAbsoluteTime time = (sec time > DURATION_20_YEARS_SEC)"

text \<open>
  \<^verbatim>\<open>Props = { disableDate?: boolean; horizontal?: boolean; time: Time; timezone?: string }\<close>.
\<close>

record TimestampProps =
  props_disableDate :: "bool option"
  props_horizontal :: "bool option"
  props_time :: Time
  props_timezone :: "string option"

text \<open>
  What the component returns: either the single text \<^verbatim>\<open>{rawTimeStr}\<close>, or the stack with
  its direction, the date when it is not disabled, the chevron icon between date and time when
  the stack is horizontal, and the text \<^verbatim>\<open>{currentTimeStr}\<close>.
\<close>

datatype TimestampView =
  RawTimeText string
| DateTimeStack (stack_horizontal: bool) (stack_date: "string option") (stack_chevron: bool)
    (stack_time: string)

text \<open>
  \<^verbatim>\<open>Timestamp\<close>. \<^verbatim>\<open>formatTime\<close> of \<^verbatim>\<open>useAppTimeFormat()\<close>, \<^verbatim>\<open>formatTimeRaw\<close> and
  \<^verbatim>\<open>formatDate\<close> are not among the sources and are arguments.
  \<^verbatim>\<open>const { disableDate = false, horizontal = false, time, timezone } = props;\<close>
\<close>

definition Timestamp ::
  "(Time \<Rightarrow> string) \<Rightarrow> (Time \<Rightarrow> string) \<Rightarrow> (Time \<Rightarrow> string option \<Rightarrow> string) \<Rightarrow> TimestampProps
     \<Rightarrow> TimestampView" where
  "Timestamp formatTime formatTimeRaw formatDate props =
     (let disableDate = (case props_disableDate props of None \<Rightarrow> False | Some b \<Rightarrow> b);
          horizontal = (case props_horizontal props of None \<Rightarrow> False | Some b \<Rightarrow> b);
          time = props_time props;
          timezone = props_timezone props;
          currentTimeStr = formatTime time;
          rawTimeStr = formatTimeRaw time;
          date = formatDate time timezone
      in if \<not> isAbsoluteTime time then RawTimeText rawTimeStr
         else DateTimeStack horizontal
                (if \<not> disableDate then Some date else None)
                (\<not> disableDate \<and> horizontal)
                currentTimeStr)"

subsection \<open>Example values\<close>

text \<open>The two records of the scenarios in section 8 of the specification.\<close>

abbreviation (input) example_hello :: LogMessageEvent where
  "example_hello \<equiv>
     \<lparr>event_topic = ''/rosout'',
      event_message = \<lparr>log_level = 1, log_name = Some ''nodeA'', log_message = ''hello'',
                       log_stamp = \<lparr>sec = 0, nsec = 0\<rparr>\<rparr>\<rparr>"

abbreviation (input) example_fail :: LogMessageEvent where
  "example_fail \<equiv>
     \<lparr>event_topic = ''/rosout'',
      event_message = \<lparr>log_level = 3, log_name = Some ''nodeB'', log_message = ''fail'',
                       log_stamp = \<lparr>sec = 0, nsec = 0\<rparr>\<rparr>\<rparr>"

text \<open>A mounted panel that follows the newest record, and one the user has scrolled.\<close>

abbreviation (input) example_following :: PanelState where
  "example_following \<equiv>
     \<lparr>seenNodeNamesCache = {}, hasUserScrolled = False, scrollByUpdate = False,
      divRef = Some \<lparr>scrollTop = 0, scrollHeight = 100\<rparr>\<rparr>"

abbreviation (input) example_paused :: PanelState where
  "example_paused \<equiv>
     \<lparr>seenNodeNamesCache = {}, hasUserScrolled = True, scrollByUpdate = False,
      divRef = Some \<lparr>scrollTop = 40, scrollHeight = 100\<rparr>\<rparr>"

section \<open>Properties\<close>

subsection \<open>Topic selection\<close>

lemma hd_filter_find:
  "(case filter P xs of [] \<Rightarrow> None | x # _ \<Rightarrow> Some (f x)) = map_option f (List.find P xs)"
  by (induction xs) simp_all

lemma defaultTopicToRender_find:
  "defaultTopicToRender allowed topics =
     map_option topic_name (List.find (\<lambda>topic. topic_datatype topic \<in> set allowed) topics)"
  unfolding defaultTopicToRender_def availableTopics_def
  by (rule hd_filter_find)

text \<open>
  Claim C3. For every list of topics, every list of allowed datatypes and every optional
  explicit choice, the selected topic is the explicit choice when there is one, whether or not
  a topic of that name exists; otherwise the name of the first topic, in the order given, whose
  datatype is allowed; otherwise \<^verbatim>\<open>"/rosout"\<close>. The function is total and returns a
  string: no branch of it raises. The panel itself selects among \<open>SUPPORTED_DATATYPES\<close>.
\<close>

theorem topicToRender_resolution:
  "topicToRender_among allowed config topics =
     (case config_topicToRender config of
        Some choice \<Rightarrow> choice
      | None \<Rightarrow>
          (case List.find (\<lambda>topic. topic_datatype topic \<in> set allowed) topics of
             Some topic \<Rightarrow> topic_name topic
           | None \<Rightarrow> ''/rosout''))
   \<and> topicToRender config topics =
     (case config_topicToRender config of
        Some choice \<Rightarrow> choice
      | None \<Rightarrow>
          (case List.find (\<lambda>topic. topic_datatype topic \<in> set SUPPORTED_DATATYPES) topics of
             Some topic \<Rightarrow> topic_name topic
           | None \<Rightarrow> ''/rosout''))"
  by (simp add: topicToRender_among_def topicToRender_def nullish_def defaultTopicToRender_find
      split: option.splits)

theorem topicToRender_resolution_witness:
  "topicToRender_among [''T1'']
     \<lparr>searchTerms = [], minLogLevel = 1, config_topicToRender = None\<rparr>
     [\<lparr>topic_name = ''a'', topic_datatype = ''T1''\<rparr>, \<lparr>topic_name = ''b'', topic_datatype = ''T2''\<rparr>]
   = ''a''
   \<and> topicToRender_among [''T1'']
     \<lparr>searchTerms = [], minLogLevel = 1, config_topicToRender = Some ''z''\<rparr>
     [\<lparr>topic_name = ''a'', topic_datatype = ''T1''\<rparr>, \<lparr>topic_name = ''b'', topic_datatype = ''T2''\<rparr>]
   = ''z''
   \<and> topicToRender
     \<lparr>searchTerms = [], minLogLevel = 1, config_topicToRender = None\<rparr>
     [\<lparr>topic_name = ''b'', topic_datatype = ''T2''\<rparr>]
   = ''/rosout''"
  using
    topicToRender_resolution [of "[''T1'']"
      "\<lparr>searchTerms = [], minLogLevel = 1, config_topicToRender = None\<rparr>"
      "[\<lparr>topic_name = ''a'', topic_datatype = ''T1''\<rparr>, \<lparr>topic_name = ''b'', topic_datatype = ''T2''\<rparr>]"]
    topicToRender_resolution [of "[''T1'']"
      "\<lparr>searchTerms = [], minLogLevel = 1, config_topicToRender = Some ''z''\<rparr>"
      "[\<lparr>topic_name = ''a'', topic_datatype = ''T1''\<rparr>, \<lparr>topic_name = ''b'', topic_datatype = ''T2''\<rparr>]"]
    topicToRender_resolution [of "[]"
      "\<lparr>searchTerms = [], minLogLevel = 1, config_topicToRender = None\<rparr>"
      "[\<lparr>topic_name = ''b'', topic_datatype = ''T2''\<rparr>]"]
  by (simp add: SUPPORTED_DATATYPES_def)

subsection \<open>The message filter\<close>

lemma found_within_iff: "found_within term text \<longleftrightarrow> (\<exists>pre post. text = pre @ term @ post)"
  by (simp add: found_within_def sublist_def)

lemma passes_iff:
  "passes spec event \<longleftrightarrow>
     filter_minLogLevel spec \<le> log_level (event_message event) \<and>
     (filter_searchTerms spec = [] \<or>
      (\<exists>term \<in> set (filter_searchTerms spec).
         (\<exists>pre post. log_message (event_message event) = pre @ term @ post) \<or>
         (\<exists>name. log_name (event_message event) = Some name \<and> (\<exists>pre post. name = pre @ term @ post))))"
  unfolding passes_def Let_def list_ex_iff found_within_iff
  by (cases "log_name (event_message event)") auto

text \<open>
  Claim C1. A record is in the output of the filter exactly when it is a record of the input,
  its level is at least \<open>minLogLevel\<close>, and either there are no search terms or some search
  term is a contiguous part of its message or of its name. With no search terms the output is
  exactly the records of the input whose level is at least \<open>minLogLevel\<close>, in their order.
\<close>

theorem filterMessages_membership:
  "(event \<in> set (filterMessages events spec) \<longleftrightarrow>
      event \<in> set events \<and>
      filter_minLogLevel spec \<le> log_level (event_message event) \<and>
      (filter_searchTerms spec = [] \<or>
       (\<exists>term \<in> set (filter_searchTerms spec).
          (\<exists>pre post. log_message (event_message event) = pre @ term @ post) \<or>
          (\<exists>name. log_name (event_message event) = Some name \<and> (\<exists>pre post. name = pre @ term @ post)))))
   \<and> (filter_searchTerms spec = [] \<longrightarrow>
        filterMessages events spec =
          filter (\<lambda>event. filter_minLogLevel spec \<le> log_level (event_message event)) events)"
proof
  show "event \<in> set (filterMessages events spec) \<longleftrightarrow>
      event \<in> set events \<and>
      filter_minLogLevel spec \<le> log_level (event_message event) \<and>
      (filter_searchTerms spec = [] \<or>
       (\<exists>term \<in> set (filter_searchTerms spec).
          (\<exists>pre post. log_message (event_message event) = pre @ term @ post) \<or>
          (\<exists>name. log_name (event_message event) = Some name \<and> (\<exists>pre post. name = pre @ term @ post))))"
    unfolding filterMessages_def set_filter mem_Collect_eq passes_iff ..
next
  show "filter_searchTerms spec = [] \<longrightarrow>
        filterMessages events spec =
          filter (\<lambda>event. filter_minLogLevel spec \<le> log_level (event_message event)) events"
    by (auto simp: filterMessages_def passes_def intro!: filter_cong)
qed

theorem filterMessages_membership_witness:
  "example_fail \<in> set (filterMessages [example_hello, example_fail]
       \<lparr>filter_minLogLevel = 0, filter_searchTerms = [''fail'']\<rparr>)
   \<and> example_hello \<notin> set (filterMessages [example_hello, example_fail]
       \<lparr>filter_minLogLevel = 0, filter_searchTerms = [''fail'']\<rparr>)
   \<and> example_hello \<in> set (filterMessages [example_hello, example_fail]
       \<lparr>filter_minLogLevel = 0, filter_searchTerms = [''deA'']\<rparr>)
   \<and> filterMessages [example_hello, example_fail]
       \<lparr>filter_minLogLevel = 2, filter_searchTerms = []\<rparr> = [example_fail]"
  using
    filterMessages_membership [unfolded sublist_def [symmetric],
      of example_fail "[example_hello, example_fail]"
      "\<lparr>filter_minLogLevel = 0, filter_searchTerms = [''fail'']\<rparr>"]
    filterMessages_membership [unfolded sublist_def [symmetric],
      of example_hello "[example_hello, example_fail]"
      "\<lparr>filter_minLogLevel = 0, filter_searchTerms = [''fail'']\<rparr>"]
    filterMessages_membership [unfolded sublist_def [symmetric],
      of example_hello "[example_hello, example_fail]"
      "\<lparr>filter_minLogLevel = 0, filter_searchTerms = [''deA'']\<rparr>"]
    filterMessages_membership [unfolded sublist_def [symmetric],
      of example_hello "[example_hello, example_fail]"
      "\<lparr>filter_minLogLevel = 2, filter_searchTerms = []\<rparr>"]
  by (simp add: sublist_code prefix_code)

text \<open>
  Claim C2. The output of the filter is a subsequence of its input, in the order of the input
  and with no record repeated; every record of the output passes the level and search
  predicate, and every record of the input that is absent from the output fails it.
\<close>

theorem filterMessages_subsequence:
  "subseq (filterMessages events spec) events
   \<and> (\<forall>event \<in> set (filterMessages events spec). passes spec event)
   \<and> (\<forall>event \<in> set events. event \<notin> set (filterMessages events spec) \<longrightarrow> \<not> passes spec event)"
  by (simp add: filterMessages_def)

theorem filterMessages_subsequence_witness:
  "subseq (filterMessages [example_hello, example_fail]
             \<lparr>filter_minLogLevel = 2, filter_searchTerms = []\<rparr>)
          [example_hello, example_fail]
   \<and> filterMessages [example_hello, example_fail]
        \<lparr>filter_minLogLevel = 2, filter_searchTerms = []\<rparr> = [example_fail]
   \<and> passes \<lparr>filter_minLogLevel = 2, filter_searchTerms = []\<rparr> example_fail
   \<and> \<not> passes \<lparr>filter_minLogLevel = 2, filter_searchTerms = []\<rparr> example_hello"
  using filterMessages_subsequence [of "[example_hello, example_fail]"
      "\<lparr>filter_minLogLevel = 2, filter_searchTerms = []\<rparr>"]
  by (simp add: filterMessages_def passes_def)

text \<open>
  Claim C7. The filter is idempotent: filtering the output again with the same filter
  specification returns the output unchanged.
\<close>

theorem filterMessages_idempotent:
  "filterMessages (filterMessages events spec) spec = filterMessages events spec"
  by (simp add: filterMessages_def)

subsection \<open>The autoscroll controller\<close>

lemma step_PagesUpdated:
  "step PagesUpdated st =
     (if hasUserScrolled st then st else scrollToBottom (st\<lparr>scrollByUpdate := True\<rparr>))"
  by (simp add: step_def onPagesUpdated_def)

lemma step_Scroll:
  "step Scroll st =
     (if scrollByUpdate st then st\<lparr>scrollByUpdate := False\<rparr>
      else st\<lparr>hasUserScrolled := True, scrollByUpdate := False\<rparr>)"
  by (simp add: step_def listener_def)

lemma step_ClickScrollToBottom:
  "step ClickScrollToBottom st =
     scrollToBottom (st\<lparr>hasUserScrolled := False, scrollByUpdate := True\<rparr>)"
  by (simp add: step_def scrollToBottomAction_def)

lemma scrollToBottom_fields [simp]:
  "hasUserScrolled (scrollToBottom st) = hasUserScrolled st"
  "scrollByUpdate (scrollToBottom st) = scrollByUpdate st"
  "seenNodeNamesCache (scrollToBottom st) = seenNodeNamesCache st"
  by (simp_all add: scrollToBottom_def split: option.splits)

lemma paused_step:
  "hasUserScrolled st \<Longrightarrow> event \<noteq> ClickScrollToBottom \<Longrightarrow>
     hasUserScrolled (step event st) \<and> CallScrollToBottom \<notin> set (handler event st)"
  by (cases event) (simp_all add: step_PagesUpdated step_Scroll onPagesUpdated_def listener_def)

lemma paused_run:
  "hasUserScrolled st \<Longrightarrow> ClickScrollToBottom \<notin> set events \<Longrightarrow>
     hasUserScrolled (run events st) \<and> CallScrollToBottom \<notin> set (statements events st)"
proof (induction events arbitrary: st)
  case Nil
  then show ?case by simp
next
  case (Cons event events)
  from Cons.prems have ne: "event \<noteq> ClickScrollToBottom" and rest: "ClickScrollToBottom \<notin> set events"
    by auto
  from paused_step [OF Cons.prems(1) ne]
  have here: "hasUserScrolled (step event st)" "CallScrollToBottom \<notin> set (handler event st)"
    by simp_all
  from Cons.IH [OF here(1) rest] here(2) show ?case by simp
qed

lemma following_arrivals:
  "\<not> hasUserScrolled st \<Longrightarrow>
     \<not> hasUserScrolled (run (replicate n PagesUpdated) st)
     \<and> count_list (statements (replicate n PagesUpdated) st) CallScrollToBottom = n"
proof (induction n arbitrary: st)
  case 0
  then show ?case by simp
next
  case (Suc n)
  have "\<not> hasUserScrolled (step PagesUpdated st)"
    using Suc.prems by (simp add: step_PagesUpdated)
  from Suc.IH [OF this] Suc.prems show ?case
    by (simp add: onPagesUpdated_def)
qed

lemma seenNodeNames_fields [simp]:
  "hasUserScrolled (seenNodeNames events st) = hasUserScrolled st"
  "scrollByUpdate (seenNodeNames events st) = scrollByUpdate st"
  "divRef (seenNodeNames events st) = divRef st"
  by (simp_all add: seenNodeNames_def)

text \<open>
  Claim C4. In a state where the user has not scrolled (Following), the arrival of new pages
  sets the one-shot flag and then calls \<open>scrollToBottom\<close>, once, and leaves the panel
  Following, also after the scroll event that the programmatic scroll raises; any number of
  arrivals makes that number of calls. A scroll event delivered while the flag is unset makes
  the panel Paused. From a Paused state, as long as the button is not clicked, the panel
  stays Paused and \<open>scrollToBottom\<close> is never called.
\<close>

theorem autoscroll_following:
  "(\<not> hasUserScrolled st \<longrightarrow>
      handler PagesUpdated st = [SetScrollByUpdate True, CallScrollToBottom]
      \<and> step PagesUpdated st = scrollToBottom (st\<lparr>scrollByUpdate := True\<rparr>)
      \<and> \<not> hasUserScrolled (step PagesUpdated st)
      \<and> \<not> hasUserScrolled (step Scroll (step PagesUpdated st))
      \<and> \<not> hasUserScrolled (run (replicate n PagesUpdated) st)
      \<and> count_list (statements (replicate n PagesUpdated) st) CallScrollToBottom = n)
   \<and> (\<not> hasUserScrolled st \<and> \<not> scrollByUpdate st \<longrightarrow> hasUserScrolled (step Scroll st))
   \<and> (hasUserScrolled paused \<and> ClickScrollToBottom \<notin> set events \<longrightarrow>
        hasUserScrolled (run events paused)
        \<and> CallScrollToBottom \<notin> set (statements events paused))"
proof (intro conjI impI)
  assume f: "\<not> hasUserScrolled st"
  show "handler PagesUpdated st = [SetScrollByUpdate True, CallScrollToBottom]"
    using f by (simp add: onPagesUpdated_def)
  show "step PagesUpdated st = scrollToBottom (st\<lparr>scrollByUpdate := True\<rparr>)"
    using f by (simp add: step_PagesUpdated)
  show "\<not> hasUserScrolled (step PagesUpdated st)"
    using f by (simp add: step_PagesUpdated)
  show "\<not> hasUserScrolled (step Scroll (step PagesUpdated st))"
    using f by (simp add: step_PagesUpdated step_Scroll)
  show "\<not> hasUserScrolled (run (replicate n PagesUpdated) st)"
    using following_arrivals [OF f] by simp
  show "count_list (statements (replicate n PagesUpdated) st) CallScrollToBottom = n"
    using following_arrivals [OF f] by simp
next
  assume "\<not> hasUserScrolled st \<and> \<not> scrollByUpdate st"
  then show "hasUserScrolled (step Scroll st)"
    by (simp add: step_Scroll)
next
  assume p: "hasUserScrolled paused \<and> ClickScrollToBottom \<notin> set events"
  then show "hasUserScrolled (run events paused)"
    using paused_run by blast
  from p show "CallScrollToBottom \<notin> set (statements events paused)"
    using paused_run by blast
qed

theorem autoscroll_following_witness:
  "\<not> hasUserScrolled example_following
   \<and> \<not> scrollByUpdate example_following
   \<and> step PagesUpdated example_following =
       \<lparr>seenNodeNamesCache = {}, hasUserScrolled = False, scrollByUpdate = True,
        divRef = Some \<lparr>scrollTop = 100, scrollHeight = 100\<rparr>\<rparr>
   \<and> count_list (statements (replicate 3 PagesUpdated) example_following) CallScrollToBottom = 3
   \<and> \<not> hasUserScrolled (run (replicate 3 PagesUpdated) example_following)
   \<and> hasUserScrolled (step Scroll example_following)
   \<and> hasUserScrolled example_paused
   \<and> ClickScrollToBottom \<notin> set [PagesUpdated, Scroll, PagesUpdated]
   \<and> hasUserScrolled (run [PagesUpdated, Scroll, PagesUpdated] example_paused)
   \<and> CallScrollToBottom \<notin> set (statements [PagesUpdated, Scroll, PagesUpdated] example_paused)"
  using autoscroll_following [of example_following 3 example_paused "[PagesUpdated, Scroll, PagesUpdated]"]
  by (simp add: scrollToBottom_def)

text \<open>
  Claim C5. A Paused panel becomes Following only by the click on the
  \<^verbatim>\<open>"Scroll to bottom"\<close> button: no other event and no render clears \<open>hasUserScrolled\<close>.
  The click clears it, sets the one-shot flag and calls \<open>scrollToBottom\<close> once. A render
  shows the button exactly when \<open>hasUserScrolled\<close> holds.
\<close>

theorem paused_until_click:
  "(hasUserScrolled st \<and> \<not> hasUserScrolled (step event st) \<longrightarrow> event = ClickScrollToBottom)
   \<and> (hasUserScrolled st \<and> \<not> hasUserScrolled (run events st) \<longrightarrow> ClickScrollToBottom \<in> set events)
   \<and> hasUserScrolled (fst (render config topics messagesByTopic st)) = hasUserScrolled st
   \<and> \<not> hasUserScrolled (step ClickScrollToBottom st)
   \<and> handler ClickScrollToBottom st =
       [SetHasUserScrolled False, SetScrollByUpdate True, CallScrollToBottom]
   \<and> count_list (handler ClickScrollToBottom st) CallScrollToBottom = 1
   \<and> step ClickScrollToBottom st =
       scrollToBottom (st\<lparr>hasUserScrolled := False, scrollByUpdate := True\<rparr>)
   \<and> view_scrollToBottomButton (snd (render config topics messagesByTopic st)) = hasUserScrolled st"
proof (intro conjI impI)
  assume "hasUserScrolled st \<and> \<not> hasUserScrolled (step event st)"
  then show "event = ClickScrollToBottom"
    using paused_step by blast
next
  assume "hasUserScrolled st \<and> \<not> hasUserScrolled (run events st)"
  then show "ClickScrollToBottom \<in> set events"
    using paused_run by blast
next
  show "hasUserScrolled (fst (render config topics messagesByTopic st)) = hasUserScrolled st"
    by (simp add: render_def Let_def)
  show "\<not> hasUserScrolled (step ClickScrollToBottom st)"
    by (simp add: step_ClickScrollToBottom)
  show "handler ClickScrollToBottom st =
       [SetHasUserScrolled False, SetScrollByUpdate True, CallScrollToBottom]"
    by (simp add: scrollToBottomAction_def)
  show "count_list (handler ClickScrollToBottom st) CallScrollToBottom = 1"
    by (simp add: scrollToBottomAction_def)
  show "step ClickScrollToBottom st =
       scrollToBottom (st\<lparr>hasUserScrolled := False, scrollByUpdate := True\<rparr>)"
    by (rule step_ClickScrollToBottom)
  show "view_scrollToBottomButton (snd (render config topics messagesByTopic st)) = hasUserScrolled st"
    by (simp add: render_def Let_def)
qed

theorem paused_until_click_witness:
  "hasUserScrolled example_paused
   \<and> \<not> hasUserScrolled (step ClickScrollToBottom example_paused)
   \<and> \<not> hasUserScrolled (run [PagesUpdated, ClickScrollToBottom, PagesUpdated] example_paused)
   \<and> ClickScrollToBottom \<in> set [PagesUpdated, ClickScrollToBottom, PagesUpdated]
   \<and> step ClickScrollToBottom example_paused =
       \<lparr>seenNodeNamesCache = {}, hasUserScrolled = False, scrollByUpdate = True,
        divRef = Some \<lparr>scrollTop = 100, scrollHeight = 100\<rparr>\<rparr>
   \<and> view_scrollToBottomButton
        (snd (render \<lparr>searchTerms = [], minLogLevel = 1, config_topicToRender = None\<rparr> []
                Map.empty example_paused))"
  using
    paused_until_click [of example_paused ClickScrollToBottom
      "[PagesUpdated, ClickScrollToBottom, PagesUpdated]"
      "\<lparr>searchTerms = [], minLogLevel = 1, config_topicToRender = None\<rparr>" "[]" Map.empty]
  by (simp add: scrollToBottom_def step_def onPagesUpdated_def scrollToBottomAction_def)

text \<open>
  With no element attached, the callers of \<open>scrollToBottom\<close> still execute their own
  assignments before the call: the one-shot flag is set, and the click clears
  \<open>hasUserScrolled\<close>. The call itself is the subject of the next property.
\<close>

lemma detached_callers:
  "divRef st = None \<Longrightarrow>
     step PagesUpdated st = (if hasUserScrolled st then st else st\<lparr>scrollByUpdate := True\<rparr>)
     \<and> step ClickScrollToBottom st = st\<lparr>hasUserScrolled := False, scrollByUpdate := True\<rparr>"
  by (simp add: step_PagesUpdated step_ClickScrollToBottom scrollToBottom_def)

text \<open>
  Claim C9. With no element attached (\<open>divRef\<close> is null), a call of \<open>scrollToBottom\<close>
  returns and leaves the whole state of the panel as it was.
\<close>

theorem scrollToBottom_detached:
  "divRef st = None \<Longrightarrow> scrollToBottom st = st \<and> exec CallScrollToBottom st = st"
  by (simp add: scrollToBottom_def)

theorem scrollToBottom_detached_witness:
  "divRef initialState = None \<and> scrollToBottom initialState = initialState
   \<and> exec CallScrollToBottom initialState = initialState"
  using scrollToBottom_detached [of initialState]
  by (simp add: initialState_def)

subsection \<open>Seen node names\<close>

lemma fold_addNodeName:
  "fold addNodeName events cache =
     cache \<union> {name. \<exists>event \<in> set events. log_name (event_message event) = Some name}"
proof (induction events arbitrary: cache)
  case Nil
  then show ?case by simp
next
  case (Cons event events)
  have "fold addNodeName (event # events) cache = fold addNodeName events (addNodeName event cache)"
    by simp
  also have "\<dots> = addNodeName event cache \<union>
      {name. \<exists>event \<in> set events. log_name (event_message event) = Some name}"
    by (rule Cons.IH)
  also have "\<dots> = cache \<union>
      {name. \<exists>event \<in> set (event # events). log_name (event_message event) = Some name}"
    by (cases "log_name (event_message event)") (auto simp: addNodeName_def)
  finally show ?case .
qed

lemma seenNodeNames_again:
  "seenNodeNames events (seenNodeNames events st) = seenNodeNames events st"
  by (simp add: seenNodeNames_def fold_addNodeName)

lemma render_cache:
  "seenNodeNamesCache (fst (render config topics messagesByTopic st)) =
     seenNodeNamesCache st \<union>
     {name. \<exists>event \<in> set (msgEvents messagesByTopic (topicToRender config topics)).
               log_name (event_message event) = Some name}"
  by (simp add: render_def Let_def seenNodeNames_def fold_addNodeName)

lemma step_cache: "seenNodeNamesCache (step event st) = seenNodeNamesCache st"
  by (cases event) (simp_all add: step_PagesUpdated step_Scroll step_ClickScrollToBottom)

text \<open>
  The sentence of the specification that the set of seen names is reset when the selected
  topic changes does not hold of the panel. A first render selects \<^verbatim>\<open>/a\<close>, whose one
  record names \<^verbatim>\<open>nodeA\<close>; a second render selects \<^verbatim>\<open>/b\<close>, which has no records; the
  set still holds \<^verbatim>\<open>nodeA\<close>.
\<close>

theorem seenNodeNames_reset_counterexample:
  "topicToRender \<lparr>searchTerms = [], minLogLevel = 1, config_topicToRender = Some ''/a''\<rparr> []
     \<noteq> topicToRender \<lparr>searchTerms = [], minLogLevel = 1, config_topicToRender = Some ''/b''\<rparr> []
   \<and> msgEvents [''/a'' \<mapsto> [example_hello]]
        (topicToRender \<lparr>searchTerms = [], minLogLevel = 1, config_topicToRender = Some ''/b''\<rparr> []) = []
   \<and> seenNodeNamesCache
        (fst (render \<lparr>searchTerms = [], minLogLevel = 1, config_topicToRender = Some ''/b''\<rparr> []
                [''/a'' \<mapsto> [example_hello]]
                (fst (render \<lparr>searchTerms = [], minLogLevel = 1, config_topicToRender = Some ''/a''\<rparr> []
                        [''/a'' \<mapsto> [example_hello]] initialState))))
      = {''nodeA''}
   \<and> seenNodeNamesCache
        (fst (render \<lparr>searchTerms = [], minLogLevel = 1, config_topicToRender = Some ''/b''\<rparr> []
                [''/a'' \<mapsto> [example_hello]]
                (fst (render \<lparr>searchTerms = [], minLogLevel = 1, config_topicToRender = Some ''/a''\<rparr> []
                        [''/a'' \<mapsto> [example_hello]] initialState))))
      \<noteq> {}"
  by (simp add: render_def Let_def seenNodeNames_def addNodeName_def msgEvents_def
      topicToRender_def topicToRender_among_def nullish_def initialState_def)

text \<open>
  Claim C6, as amended. A render adds to the set of seen names exactly the defined names of
  the records of the selected topic: no name seen before is removed and every defined name of
  the batch is added. This holds whatever topic the render selects, so the names seen under an
  earlier selection stay in the set after the selection has changed; no event of the panel
  touches the set either.
\<close>

theorem seenNodeNames_accumulates:
  "seenNodeNamesCache (fst (render config topics messagesByTopic st)) =
     seenNodeNamesCache st \<union>
     {name. \<exists>event \<in> set (msgEvents messagesByTopic (topicToRender config topics)).
               log_name (event_message event) = Some name}
   \<and> seenNodeNamesCache st \<subseteq> seenNodeNamesCache (fst (render config topics messagesByTopic st))
   \<and> (\<forall>event \<in> set (msgEvents messagesByTopic (topicToRender config topics)).
        \<forall>name. log_name (event_message event) = Some name \<longrightarrow>
          name \<in> seenNodeNamesCache (fst (render config topics messagesByTopic st)))
   \<and> seenNodeNamesCache (fst (render config topics messagesByTopic st))
       \<subseteq> seenNodeNamesCache
           (fst (render config' topics' messagesByTopic'
                   (fst (render config topics messagesByTopic st))))
   \<and> seenNodeNamesCache (step ev st) = seenNodeNamesCache st"
  unfolding render_cache step_cache by blast

theorem seenNodeNames_accumulates_witness:
  "example_hello \<in> set (msgEvents [''/a'' \<mapsto> [example_hello]]
      (topicToRender \<lparr>searchTerms = [], minLogLevel = 1, config_topicToRender = Some ''/a''\<rparr> []))
   \<and> log_name (event_message example_hello) = Some ''nodeA''
   \<and> ''nodeA'' \<in> seenNodeNamesCache
        (fst (render \<lparr>searchTerms = [], minLogLevel = 1, config_topicToRender = Some ''/a''\<rparr> []
                [''/a'' \<mapsto> [example_hello]] initialState))
   \<and> ''nodeA'' \<in> seenNodeNamesCache
        (fst (render \<lparr>searchTerms = [], minLogLevel = 1, config_topicToRender = Some ''/b''\<rparr> []
                [''/a'' \<mapsto> [example_hello]]
                (fst (render \<lparr>searchTerms = [], minLogLevel = 1, config_topicToRender = Some ''/a''\<rparr> []
                        [''/a'' \<mapsto> [example_hello]] initialState))))"
proof -
  have sel: "msgEvents [''/a'' \<mapsto> [example_hello]]
      (topicToRender \<lparr>searchTerms = [], minLogLevel = 1, config_topicToRender = Some ''/a''\<rparr> [])
      = [example_hello]"
    by (simp add: msgEvents_def topicToRender_def topicToRender_among_def nullish_def)
  note acc = seenNodeNames_accumulates [of
      "\<lparr>searchTerms = [], minLogLevel = 1, config_topicToRender = Some ''/a''\<rparr>" "[]"
      "[''/a'' \<mapsto> [example_hello]]" initialState
      "\<lparr>searchTerms = [], minLogLevel = 1, config_topicToRender = Some ''/b''\<rparr>" "[]"
      "[''/a'' \<mapsto> [example_hello]]" Scroll]
  from acc have inA: "''nodeA'' \<in> seenNodeNamesCache
        (fst (render \<lparr>searchTerms = [], minLogLevel = 1, config_topicToRender = Some ''/a''\<rparr> []
                [''/a'' \<mapsto> [example_hello]] initialState))"
    unfolding sel by simp
  from acc inA have "''nodeA'' \<in> seenNodeNamesCache
        (fst (render \<lparr>searchTerms = [], minLogLevel = 1, config_topicToRender = Some ''/b''\<rparr> []
                [''/a'' \<mapsto> [example_hello]]
                (fst (render \<lparr>searchTerms = [], minLogLevel = 1, config_topicToRender = Some ''/a''\<rparr> []
                        [''/a'' \<mapsto> [example_hello]] initialState))))"
    by blast
  with inA sel show ?thesis by simp
qed

subsection \<open>Rendering a cell\<close>

lemma dom_fold_set:
  "dom (fold (\<lambda>topic out. out(topic_name topic \<mapsto> topic_datatype topic)) topics m) =
     dom m \<union> topic_name ` set topics"
  by (induction topics arbitrary: m) auto

lemma datatypeByTopic_None:
  "datatypeByTopic topics name = None \<longleftrightarrow> name \<notin> topic_name ` set topics"
proof -
  have "dom (datatypeByTopic topics) = topic_name ` set topics"
    by (simp add: datatypeByTopic_def dom_fold_set)
  then show ?thesis by (metis domIff)
qed

text \<open>
  Claim C8. For a record whose topic is not among the topics of the data source, so that
  \<open>datatypeByTopic\<close> has no datatype for it, \<open>onRenderCell\<close> returns nothing; it does
  not call \<open>normalizedLogMessage\<close> and raises no error, whatever that function would do.
\<close>

theorem onRenderCell_unknown_topic:
  "event_topic item \<notin> topic_name ` set topics \<Longrightarrow>
     onRenderCell normalizedLogMessage timeFormat timeZone topics (Some item) = Inr None"
  by (simp add: onRenderCell_def datatypeByTopic_None [THEN iffD2])

theorem onRenderCell_unknown_topic_witness:
  "event_topic example_fail \<notin> topic_name ` set [\<lparr>topic_name = ''/other'', topic_datatype = ''foxglove.Log''\<rparr>]
   \<and> onRenderCell (\<lambda>datatype raw. (Inl () :: unit + unit)) () ()
        [\<lparr>topic_name = ''/other'', topic_datatype = ''foxglove.Log''\<rparr>] (Some example_fail) = Inr None"
  using onRenderCell_unknown_topic [of example_fail
      "[\<lparr>topic_name = ''/other'', topic_datatype = ''foxglove.Log''\<rparr>]"
      "\<lambda>datatype raw. (Inl () :: unit + unit)" "()" "()"]
  by simp

subsection \<open>The Timestamp component\<close>

lemma isAbsoluteTime_iff: "isAbsoluteTime time \<longleftrightarrow> 630720000 < sec time"
  by (simp add: isAbsoluteTime_def DURATION_20_YEARS_SEC_def)

text \<open>
  Claim C10. \<open>Timestamp\<close> renders the raw time text alone, with no date and no formatted
  time, exactly when the seconds of the time are at most 630720000, which is
  \<open>20 * 365 * 24 * 60 * 60\<close>; otherwise it renders the stack of date and time. A time of
  exactly 630720000 seconds is rendered as raw text.
\<close>

theorem Timestamp_relative_iff:
  "(Timestamp formatTime formatTimeRaw formatDate props = RawTimeText (formatTimeRaw (props_time props))
      \<longleftrightarrow> sec (props_time props) \<le> 630720000)
   \<and> ((\<exists>text. Timestamp formatTime formatTimeRaw formatDate props = RawTimeText text)
      \<longleftrightarrow> sec (props_time props) \<le> 630720000)
   \<and> ((\<exists>horizontal date chevron time.
          Timestamp formatTime formatTimeRaw formatDate props = DateTimeStack horizontal date chevron time)
      \<longleftrightarrow> 630720000 < sec (props_time props))
   \<and> (isAbsoluteTime (props_time props) \<longleftrightarrow> 630720000 < sec (props_time props))
   \<and> DURATION_20_YEARS_SEC = 630720000
   \<and> Timestamp formatTime formatTimeRaw formatDate (props\<lparr>props_time := \<lparr>sec = 630720000, nsec = n\<rparr>\<rparr>)
       = RawTimeText (formatTimeRaw \<lparr>sec = 630720000, nsec = n\<rparr>)"
  by (simp add: Timestamp_def Let_def isAbsoluteTime_iff DURATION_20_YEARS_SEC_def)

theorem Timestamp_relative_iff_witness:
  "Timestamp (\<lambda>time. ''12:00:00'') (\<lambda>time. ''630720000.000000000'') (\<lambda>time timezone. ''1989-12-27'')
     \<lparr>props_disableDate = None, props_horizontal = None,
      props_time = \<lparr>sec = 630720000, nsec = 0\<rparr>, props_timezone = None\<rparr>
     = RawTimeText ''630720000.000000000''
   \<and> Timestamp (\<lambda>time. ''12:00:01'') (\<lambda>time. ''630720001.000000000'') (\<lambda>time timezone. ''1989-12-27'')
     \<lparr>props_disableDate = None, props_horizontal = None,
      props_time = \<lparr>sec = 630720001, nsec = 0\<rparr>, props_timezone = None\<rparr>
     \<noteq> RawTimeText ''630720001.000000000''"
  using
    Timestamp_relative_iff [of "\<lambda>time. ''12:00:00''" "\<lambda>time. ''630720000.000000000''"
      "\<lambda>time timezone. ''1989-12-27''"
      "\<lparr>props_disableDate = None, props_horizontal = None,
        props_time = \<lparr>sec = 630720000, nsec = 0\<rparr>, props_timezone = None\<rparr>" 0]
    Timestamp_relative_iff [of "\<lambda>time. ''12:00:01''" "\<lambda>time. ''630720001.000000000''"
      "\<lambda>time timezone. ''1989-12-27''"
      "\<lparr>props_disableDate = None, props_horizontal = None,
        props_time = \<lparr>sec = 630720001, nsec = 0\<rparr>, props_timezone = None\<rparr>" 0]
  by simp

end
